theory Spec2Isabelle
  imports Complex_Main "HOL-Library.Word" "HOL-Library.Multiset"
begin

section \<open>Values of the JavaScript runtime\<close>

text \<open>
  A Node \<^verbatim>\<open>Buffer\<close> is a sequence of bytes.  Hashes travel through the code both as
  buffers and as lower-case hexadecimal strings (\<^verbatim>\<open>buf.toString('hex')\<close>,
  \<^verbatim>\<open>Buffer.from(str, 'hex')\<close>).
\<close>

type_synonym buffer = "8 word list"

text \<open>
  Exceptions are values.  \<open>Error msg\<close> is \<^verbatim>\<open>new Error(msg)\<close> with its literal
  message, as thrown by the sources of the repository.  The remaining constructors are
  the exceptions raised by the runtime and by the libraries the code calls:
  \<^item> \<open>TfTypeError\<close>: the \<^verbatim>\<open>typeforce\<close> check of an argument tuple failed;
  \<^item> \<open>TypeError\<close>: the runtime's own TypeError (a property of \<^verbatim>\<open>undefined\<close>, a call
    of something that is no function, \<^verbatim>\<open>reduce\<close> of an empty array without an
    initial value);
  \<^item> \<open>AssertionError\<close>: \<^verbatim>\<open>assert(x)\<close> on a falsy \<open>x\<close>;
  \<^item> \<open>SandboxError msg\<close>: whatever the contract code or the VM threw inside
    \<^verbatim>\<open>vm.run\<close>;
  \<^item> \<open>OutputAlreadySpent\<close>, \<open>IndexAlreadyDeleted\<close>, \<open>OutputExists\<close>: the failures of
    the UTXO and patch operations, which are not among the sources and are modelled
    from the specification (see below).
\<close>

datatype error =
    Error string
  | TfTypeError
  | TypeError
  | AssertionError
  | SandboxError string
  | OutputAlreadySpent nat string
  | IndexAlreadyDeleted string nat
  | OutputExists string nat

section \<open>utils.js\<close>

text \<open>
  \<^verbatim>\<open>arrayIntersection\<close> builds a \<^verbatim>\<open>Set\<close> from its first argument and pushes, in
  order, every element of the second argument that the set has.  The loop is
  \<open>intersect_loop\<close>, with the array \<^verbatim>\<open>result\<close> as accumulator.
\<close>

fun intersect_loop :: "'a set \<Rightarrow> 'a list \<Rightarrow> 'a list \<Rightarrow> 'a list" where
  "intersect_loop cache [] result = result"
| "intersect_loop cache (elem # rest) result =
     intersect_loop cache rest (if elem \<in> cache then result @ [elem] else result)"

definition arrayIntersection :: "'a list \<Rightarrow> 'a list \<Rightarrow> 'a list" where
  "arrayIntersection array1 array2 =
     (let cache = set array1 in intersect_loop cache array2 [])"

definition arrayEquals :: "'a list \<Rightarrow> 'a list \<Rightarrow> bool" where
  "arrayEquals array1 array2 \<longleftrightarrow>
     length array1 = length array2 \<and>
     length (arrayIntersection array1 array2) = length array1"

section \<open>structures/witnessGroupDefinition.js\<close>

text \<open>
  The object behind \<^verbatim>\<open>this._data\<close>.  A field that may be missing from the stored
  object (\<^verbatim>\<open>undefined\<close>) is an option.
\<close>

record witnessGroupDefinition =
  publicKeys :: "buffer list option"
  delegatesPublicKeys :: "buffer list option"
  groupContractAddress :: "buffer option"
  groupId :: nat
  quorum :: "int option"

text \<open>
  \<^verbatim>\<open>parseInt(x)\<close> of a number converts it to a string and reads the leading integer:
  the number is truncated towards zero.  (This holds while the string has no exponent,
  that is below \<open>10\<^sup>2\<^sup>1\<close>; the argument here is half the length of an array.)
\<close>

definition parseInt :: "rat \<Rightarrow> int" where
  "parseInt x = (if 0 \<le> x then \<lfloor>x\<rfloor> else \<lceil>x\<rceil>)"

text \<open>\<^verbatim>\<open>a || b\<close> on two possibly missing arrays: every array, also the empty one, is truthy.\<close>

definition orElse :: "'a option \<Rightarrow> 'a option \<Rightarrow> 'a option" where
  "orElse a b = (case a of Some x \<Rightarrow> Some x | None \<Rightarrow> b)"

text \<open>
  \<^verbatim>\<open>getQuorum\<close>: a stored quorum that is truthy (a number other than zero) is returned
  as it is.  Otherwise the length of \<^verbatim>\<open>delegatesPublicKeys || publicKeys\<close> is read,
  which throws a TypeError when neither list is stored.
\<close>

definition getQuorum :: "witnessGroupDefinition \<Rightarrow> error + int" where
  "getQuorum d =
     (case quorum d of
        Some q \<Rightarrow>
          if q \<noteq> 0 then Inr q
          else (case orElse (delegatesPublicKeys d) (publicKeys d) of
                  None \<Rightarrow> Inl TypeError
                | Some arr \<Rightarrow> Inr (parseInt (of_nat (length arr) / 2) + 1))
      | None \<Rightarrow>
          (case orElse (delegatesPublicKeys d) (publicKeys d) of
             None \<Rightarrow> Inl TypeError
           | Some arr \<Rightarrow> Inr (parseInt (of_nat (length arr) / 2) + 1)))"

section \<open>Hexadecimal strings\<close>

text \<open>
  \<^verbatim>\<open>buf.toString('hex')\<close> writes two lower-case digits for every byte.
  \<^verbatim>\<open>Buffer.from(str, 'hex')\<close> reads pairs of digits and stops at the first pair that
  is not hexadecimal (a trailing single digit is dropped).
\<close>

definition hexDigit :: "nat \<Rightarrow> char" where
  "hexDigit d = ''0123456789abcdef'' ! d"

definition toHex :: "buffer \<Rightarrow> string" where
  "toHex buf = concat (map (\<lambda>b. [hexDigit (unat b div 16), hexDigit (unat b mod 16)]) buf)"

definition hexValue :: "char \<Rightarrow> nat option" where
  "hexValue c =
     (let n = of_char c :: nat in
      if 48 \<le> n \<and> n \<le> 57 then Some (n - 48)
      else if 97 \<le> n \<and> n \<le> 102 then Some (n - 87)
      else if 65 \<le> n \<and> n \<le> 70 then Some (n - 55)
      else None)"

fun fromHex :: "string \<Rightarrow> buffer" where
  "fromHex (a # b # rest) =
     (case hexValue a of
        None \<Rightarrow> []
      | Some x \<Rightarrow>
          (case hexValue b of
             None \<Rightarrow> []
           | Some y \<Rightarrow> word_of_nat (16 * x + y) # fromHex rest))"
| "fromHex [a] = []"
| "fromHex [] = []"

section \<open>The collaborators of the Application\<close>

text \<open>
  \<^verbatim>\<open>node/app.js\<close> exports a function of its collaborators,
  \<^verbatim>\<open>({Constants, Transaction, Crypto, PatchDB, Coins}) => class Application\<close>.
  None of them is among the sources.  \<open>Coins\<close>, \<open>UTXO\<close>, \<open>PatchDB\<close> and the
  transaction are modelled from the specification; the Crypto facade, the
  \<^verbatim>\<open>typeforce\<close> types and the VM are parameters (\<open>deps\<close>).
\<close>

subsection \<open>Coins and UTXO\<close>

text \<open>
  Modelled from the spec: the class \<^verbatim>\<open>Coins\<close> (spec 2 and 3), "a value object:
  (amount, receiver_address)".  The amount is a JavaScript number; its type is left
  open (\<open>'a\<close>), and the code adds amounts with the \<open>+\<close> of that type.
\<close>

record 'a coins =
  amount :: 'a
  receiverAddr :: buffer

text \<open>
  Modelled from the spec: the class \<^verbatim>\<open>UTXO\<close> (spec 2, 3 and 4.1), "the
  per-transaction set of as-yet-unspent outputs indexed by output position, plus a
  tombstone bitmap recording which positions have been spent".
\<close>

record 'a utxo =
  utxoTxHash :: string
  outputs :: "nat \<rightharpoonup> 'a coins"
  spent :: "nat set"

text \<open>
  Modelled from the spec: \<^verbatim>\<open>utxo.coinsAtIndex(i)\<close> (spec 4.1), "returns the Coins at
  the given output position", and fails when there are none, with the message
  \<^verbatim>\<open>Output #<i> of Tx <tx_hash> already spent!\<close> (spec 7).
\<close>

definition coinsAtIndex :: "'a utxo \<Rightarrow> nat \<Rightarrow> error + 'a coins" where
  "coinsAtIndex u idx =
     (case outputs u idx of
        None \<Rightarrow> Inl (OutputAlreadySpent idx (utxoTxHash u))
      | Some c \<Rightarrow> Inr c)"

text \<open>
  Modelled from the spec: \<^verbatim>\<open>utxo.spendCoins(i)\<close> (spec 4.1), "marks position i spent;
  fails with already deleted if already tombstoned", the message being
  \<^verbatim>\<open>Tx <tx_hash> index <i> already deleted!\<close> (spec 7).
\<close>

definition utxoSpendCoins :: "'a utxo \<Rightarrow> nat \<Rightarrow> error + 'a utxo" where
  "utxoSpendCoins u idx =
     (if idx \<in> spent u then Inl (IndexAlreadyDeleted (utxoTxHash u) idx)
      else Inr (u\<lparr>outputs := (outputs u)(idx := None), spent := insert idx (spent u)\<rparr>))"

text \<open>
  Modelled from the spec: \<^verbatim>\<open>utxo.isEmpty()\<close> (spec 4.1), "true iff no live outputs
  remain".
\<close>

definition isEmpty :: "'a utxo \<Rightarrow> bool" where
  "isEmpty u \<longleftrightarrow> outputs u = Map.empty"

subsection \<open>Contract, Receipt and PatchDB\<close>

text \<open>
  Modelled from the spec: \<^verbatim>\<open>Contract\<close> (spec 3), with its address, its data and the
  text of its methods.  The data is the list of the instance's properties, whose
  values are opaque (\<open>'v\<close>).
\<close>

record 'v contract =
  storedAddress :: string
  storedData :: "(string \<times> 'v) list"
  storedCode :: string

text \<open>
  Modelled from the spec: \<^verbatim>\<open>Receipt\<close> (spec 3 and 6), "status \<open>\<in>\<close> {OK, FAILED},
  coins_used".
\<close>

datatype txStatus = TX_STATUS_OK | TX_STATUS_FAILED

record receipt =
  status :: txStatus
  coinsUsed :: int

text \<open>
  Modelled from the spec: the class \<^verbatim>\<open>PatchDB\<close> (spec 3 and 4.2), the overlay of one
  block, as far as the Application reads and writes it: the UTXOs it has written, the
  spending transaction retained with each spend, the contracts and the receipts.
  A method that changes the patch returns the new patch together with what it threw,
  if anything.
\<close>

record ('a, 'v) patchDB =
  utxoMap :: "string \<rightharpoonup> 'a utxo"
  spendingTx :: "string \<times> nat \<rightharpoonup> string"
  contractMap :: "string \<rightharpoonup> 'v contract"
  receiptMap :: "string \<rightharpoonup> receipt"

text \<open>Modelled from the spec: \<^verbatim>\<open>new PatchDB()\<close>, "a fresh empty patch" (spec 4.3).\<close>

definition newPatchDB :: "('a, 'v) patchDB" where
  "newPatchDB =
     \<lparr>utxoMap = Map.empty, spendingTx = Map.empty, contractMap = Map.empty,
      receiptMap = Map.empty\<rparr>"

text \<open>
  Modelled from the spec: \<^verbatim>\<open>patch.getUtxo(txHash)\<close> (spec 4.2), "returns the overlay
  copy if mutated, else none".
\<close>

definition getUtxo :: "('a, 'v) patchDB \<Rightarrow> string \<Rightarrow> 'a utxo option" where
  "getUtxo patch h = utxoMap patch h"

text \<open>
  Modelled from the spec: \<^verbatim>\<open>patch.createCoins(txHash, idx, coins)\<close> (spec 4.2),
  "inserts a new output.  Fails if the (tx_hash, index) pair already exists as a live
  output in this patch".  The first output of a transaction creates its UTXO.
\<close>

definition createCoins ::
  "('a, 'v) patchDB \<Rightarrow> string \<Rightarrow> nat \<Rightarrow> 'a coins \<Rightarrow> ('a, 'v) patchDB \<times> (error + unit)" where
  "createCoins patch h idx c =
     (let u = (case utxoMap patch h of
                 Some v \<Rightarrow> v
               | None \<Rightarrow> \<lparr>utxoTxHash = h, outputs = Map.empty, spent = {}\<rparr>)
      in if outputs u idx \<noteq> None then (patch, Inl (OutputExists h idx))
         else (patch\<lparr>utxoMap := (utxoMap patch)(h \<mapsto> u\<lparr>outputs := (outputs u)(idx \<mapsto> c)\<rparr>)\<rparr>,
               Inr ()))"

text \<open>
  Modelled from the spec: \<^verbatim>\<open>patch.spendCoins(utxo, idx, txHashSpent)\<close> (spec 4.2),
  "lazily clones the storage UTXO into the patch on first write, then applies
  spend_coins(index).  The spending_tx_hash is retained for potential
  reverse-indexing".  The copy is the patch's own UTXO of that hash if it has one, and
  the UTXO passed in otherwise; it is stored with the spend applied, so that a spend
  which fails stores nothing.
\<close>

definition spendCoins ::
  "('a, 'v) patchDB \<Rightarrow> 'a utxo \<Rightarrow> nat \<Rightarrow> string \<Rightarrow> ('a, 'v) patchDB \<times> (error + unit)" where
  "spendCoins patch u idx txHashSpent =
     (let h = utxoTxHash u;
          utxoCopy = (case utxoMap patch h of Some v \<Rightarrow> v | None \<Rightarrow> u)
      in case utxoSpendCoins utxoCopy idx of
           Inl e \<Rightarrow> (patch, Inl e)
         | Inr utxoCopy' \<Rightarrow>
             (patch\<lparr>utxoMap := (utxoMap patch)(h \<mapsto> utxoCopy'),
                    spendingTx := (spendingTx patch)((h, idx) \<mapsto> txHashSpent)\<rparr>,
              Inr ()))"

text \<open>
  Modelled from the spec: \<^verbatim>\<open>patch.setContract(address, data, code)\<close> (spec 4.2),
  "records a newly deployed or updated contract".
\<close>

definition setContract ::
  "('a, 'v) patchDB \<Rightarrow> string \<Rightarrow> (string \<times> 'v) list \<Rightarrow> string \<Rightarrow> ('a, 'v) patchDB" where
  "setContract patch addr objData strCode =
     patch\<lparr>contractMap := (contractMap patch)
       (addr \<mapsto> \<lparr>storedAddress = addr, storedData = objData, storedCode = strCode\<rparr>)\<rparr>"

subsection \<open>Transaction\<close>

text \<open>
  Modelled from the spec: the Transaction facade (spec 6), as the record of what its
  accessors return: \<^verbatim>\<open>tx.hash()\<close>, \<^verbatim>\<open>tx.hash(i)\<close>, \<^verbatim>\<open>tx.inputs\<close>,
  \<^verbatim>\<open>tx.claimProofs\<close>, \<^verbatim>\<open>tx.getOutCoins()\<close> and \<^verbatim>\<open>tx.getCode()\<close>.  An input
  holds \<^verbatim>\<open>input.txHash\<close> (a buffer) and \<^verbatim>\<open>input.nTxOutput\<close>.
\<close>

record txInput =
  inputTxHash :: buffer
  nTxOutput :: nat

record 'a transaction =
  txHash :: string
  txHashOfInput :: "nat \<Rightarrow> string"
  inputs :: "txInput list"
  claimProofs :: "buffer list"
  outCoins :: "'a coins list"
  txCode :: string

subsection \<open>Crypto, typeforce and the VM\<close>

text \<open>
  The value of \<^verbatim>\<open>vm.run(code)\<close>: a falsy value, or an object with its enumerable own
  properties (what \<^verbatim>\<open>Object.assign({}, retVal)\<close> copies), the outcome of calling
  \<^verbatim>\<open>retVal.export()\<close> (a TypeError when there is no such method), and for a member's
  name the text \<^verbatim>\<open>retVal[name].toString()\<close> (\<open>None\<close> when the member is undefined).
\<close>

record 'v jsObject =
  ownProps :: "(string \<times> 'v) list"
  exportResult :: "error + string list"
  memberSource :: "string \<Rightarrow> string option"

datatype 'v retval = Falsy | Object "'v jsObject"

text \<open>
  The parameters of the model:
  \<^item> \<open>recoverPubKey\<close> is \<^verbatim>\<open>Crypto.recoverPubKey(msg, signature)\<close>;
  \<^item> \<open>getAddressBuffer\<close> is \<^verbatim>\<open>Crypto.getAddress(key, true)\<close>, \<open>getAddressString\<close> is
    \<^verbatim>\<open>Crypto.getAddress(key)\<close>;
  \<^item> \<open>isAddress\<close>, \<open>isSignature\<close>, \<open>isHash256bit\<close> are the typeforce types
    \<^verbatim>\<open>types.Address\<close>, \<^verbatim>\<open>types.Signature\<close>, \<^verbatim>\<open>types.Hash256bit\<close>;
  \<^item> \<open>vmRun\<close> is \<^verbatim>\<open>vm.run\<close> of a VM with the timeout \<^verbatim>\<open>Constants.TIMEOUT_CODE\<close> and an
    empty sandbox: the value of the code, or what it threw;
  \<^item> \<open>predefinedClassesCode\<close> is the text of \<^verbatim>\<open>proto/predefinedClasses.js\<close>.
\<close>

record 'v deps =
  recoverPubKey :: "buffer \<Rightarrow> buffer \<Rightarrow> string"
  getAddressBuffer :: "string \<Rightarrow> buffer"
  getAddressString :: "string \<Rightarrow> string"
  isAddress :: "buffer \<Rightarrow> bool"
  isSignature :: "buffer \<Rightarrow> bool"
  isHash256bit :: "buffer \<Rightarrow> bool"
  vmRun :: "string \<Rightarrow> error + 'v retval"
  predefinedClassesCode :: string

section \<open>node/app.js\<close>

subsection \<open>\<^verbatim>\<open>_verifyPayToAddr\<close>\<close>

text \<open>
  The signature is \<^verbatim>\<open>claimProofs[i]\<close>, which is \<^verbatim>\<open>undefined\<close> (\<open>None\<close>) when the array
  is too short; typeforce rejects it then.  After the check of the argument types the
  public key is recovered and the address derived from it is compared with the
  receiver's, byte by byte (\<^verbatim>\<open>Buffer.equals\<close>).
\<close>

definition typeforceAddrSigHash :: "'v deps \<Rightarrow> buffer \<Rightarrow> buffer option \<Rightarrow> buffer \<Rightarrow> bool" where
  "typeforceAddrSigHash deps address signature buffSignedData \<longleftrightarrow>
     (case signature of
        None \<Rightarrow> False
      | Some sig \<Rightarrow> isAddress deps address \<and> isSignature deps sig \<and> isHash256bit deps buffSignedData)"

definition verifyPayToAddr :: "'v deps \<Rightarrow> buffer \<Rightarrow> buffer option \<Rightarrow> buffer \<Rightarrow> error + unit" where
  "verifyPayToAddr deps address signature buffSignedData =
     (if \<not> typeforceAddrSigHash deps address signature buffSignedData then Inl TfTypeError
      else case signature of
             None \<Rightarrow> Inl TfTypeError
           | Some sig \<Rightarrow>
               (let pubKey = recoverPubKey deps buffSignedData sig
                in if address \<noteq> getAddressBuffer deps pubKey then Inl (Error ''Claim failed!'')
                   else Inr ()))"

subsection \<open>\<^verbatim>\<open>processTxInputs\<close>\<close>

text \<open>\<^verbatim>\<open>xs[i]\<close>, which is \<^verbatim>\<open>undefined\<close> beyond the end of the array.\<close>

definition nthOpt :: "'b list \<Rightarrow> nat \<Rightarrow> 'b option" where
  "nthOpt xs i = (if i < length xs then Some (xs ! i) else None)"

text \<open>
  \<^verbatim>\<open>patch.getUtxo(strInputTxHash) || mapUtxos[strInputTxHash]\<close>: the patch is asked
  first, the snapshot second (a UTXO object is truthy).  The snapshot is an object
  whose keys are the hashes as hexadecimal strings.
\<close>

definition lookupUtxo ::
  "('a, 'v) patchDB \<Rightarrow> (string \<rightharpoonup> 'a utxo) \<Rightarrow> string \<Rightarrow> 'a utxo option" where
  "lookupUtxo patch mapUtxos h = orElse (getUtxo patch h) (mapUtxos h)"

text \<open>
  The body of the loop for input \<open>i\<close>: the new patch, and the amount of the coins spent
  or the exception thrown.
\<close>

definition processInput ::
  "'v deps \<Rightarrow> 'a transaction \<Rightarrow> (string \<rightharpoonup> 'a utxo) \<Rightarrow> ('a, 'v) patchDB \<Rightarrow> nat \<Rightarrow> txInput
     \<Rightarrow> ('a, 'v) patchDB \<times> (error + 'a)" where
  "processInput deps tx mapUtxos patch i input =
     (let buffInputHash = fromHex (txHashOfInput tx i);
          strInputTxHash = toHex (inputTxHash input)
      in case lookupUtxo patch mapUtxos strInputTxHash of
           None \<Rightarrow>
             (patch, Inl (Error (''UTXO not found for '' @ strInputTxHash @
                                 '' neither in patch nor in mapUtxos'')))
         | Some utxo \<Rightarrow>
             (case coinsAtIndex utxo (nTxOutput input) of
                Inl e \<Rightarrow> (patch, Inl e)
              | Inr coins \<Rightarrow>
                  (case verifyPayToAddr deps (receiverAddr coins) (nthOpt (claimProofs tx) i)
                          buffInputHash of
                     Inl e \<Rightarrow> (patch, Inl e)
                   | Inr _ \<Rightarrow>
                       (case spendCoins patch utxo (nTxOutput input) (txHash tx) of
                          (patch', Inl e) \<Rightarrow> (patch', Inl e)
                        | (patch', Inr _) \<Rightarrow> (patch', Inr (amount coins))))))"

text \<open>
  The loop \<^verbatim>\<open>for (let i = 0; i < txInputs.length; i++)\<close>, from index \<open>i\<close> on: the inputs
  still to process, the patch and \<^verbatim>\<open>totalHas\<close>.  An exception ends it, and leaves the
  patch as it is at that moment.
\<close>

fun inputsLoop ::
  "'v deps \<Rightarrow> ('a::{plus,zero}) transaction \<Rightarrow> (string \<rightharpoonup> 'a utxo) \<Rightarrow> txInput list \<Rightarrow> nat
     \<Rightarrow> ('a, 'v) patchDB \<Rightarrow> 'a \<Rightarrow> ('a, 'v) patchDB \<times> (error + 'a)" where
  "inputsLoop deps tx mapUtxos [] i patch totalHas = (patch, Inr totalHas)"
| "inputsLoop deps tx mapUtxos (input # rest) i patch totalHas =
     (case processInput deps tx mapUtxos patch i input of
        (patch', Inl e) \<Rightarrow> (patch', Inl e)
      | (patch', Inr a) \<Rightarrow> inputsLoop deps tx mapUtxos rest (Suc i) patch' (totalHas + a))"

text \<open>\<^verbatim>\<open>patchForBlock ? patchForBlock : new PatchDB()\<close>\<close>

definition workingPatch :: "('a, 'v) patchDB option \<Rightarrow> ('a, 'v) patchDB" where
  "workingPatch patchForBlock = (case patchForBlock of Some p \<Rightarrow> p | None \<Rightarrow> newPatchDB)"

definition processTxInputs ::
  "'v deps \<Rightarrow> ('a::{plus,zero}) transaction \<Rightarrow> (string \<rightharpoonup> 'a utxo) \<Rightarrow> ('a, 'v) patchDB option
     \<Rightarrow> ('a, 'v) patchDB \<times> (error + 'a)" where
  "processTxInputs deps tx mapUtxos patchForBlock =
     (let patch = workingPatch patchForBlock
      in inputsLoop deps tx mapUtxos (inputs tx) 0 patch 0)"

subsection \<open>\<^verbatim>\<open>processPayments\<close>\<close>

fun paymentsLoop ::
  "string \<Rightarrow> ('a::{plus,zero}) coins list \<Rightarrow> nat \<Rightarrow> ('a, 'v) patchDB \<Rightarrow> 'a
     \<Rightarrow> ('a, 'v) patchDB \<times> (error + 'a)" where
  "paymentsLoop h [] i patch totalSent = (patch, Inr totalSent)"
| "paymentsLoop h (c # rest) i patch totalSent =
     (case createCoins patch h i c of
        (patch', Inl e) \<Rightarrow> (patch', Inl e)
      | (patch', Inr _) \<Rightarrow> paymentsLoop h rest (Suc i) patch' (totalSent + amount c))"

definition processPayments ::
  "('a::{plus,zero}) transaction \<Rightarrow> ('a, 'v) patchDB \<Rightarrow> ('a, 'v) patchDB \<times> (error + 'a)" where
  "processPayments tx patch =
     (let h = txHash tx; txCoins = outCoins tx
      in paymentsLoop h txCoins 0 patch 0)"

subsection \<open>\<^verbatim>\<open>createContract\<close> and \<^verbatim>\<open>runContract\<close>\<close>

text \<open>
  \<^verbatim>\<open>names.map(n => retVal[n].toString())\<close>: a TypeError at the first name that is no
  member.  \<^verbatim>\<open>.reduce((accumCode, funcCode) => accumCode + funcCode)\<close> has no initial
  value: a TypeError on the empty array, and otherwise the texts one after the other.
\<close>

fun memberSources :: "(string \<Rightarrow> string option) \<Rightarrow> string list \<Rightarrow> error + string list" where
  "memberSources src [] = Inr []"
| "memberSources src (strFuncName # rest) =
     (case src strFuncName of
        None \<Rightarrow> Inl TypeError
      | Some funcCode \<Rightarrow>
          (case memberSources src rest of
             Inl e \<Rightarrow> Inl e
           | Inr codes \<Rightarrow> Inr (funcCode # codes)))"

definition reduceConcat :: "string list \<Rightarrow> error + string" where
  "reduceConcat codes =
     (case codes of
        [] \<Rightarrow> Inl TypeError
      | first # rest \<Rightarrow> Inr (foldl (\<lambda>accumCode funcCode. accumCode @ funcCode) first rest))"

text \<open>
  \<^verbatim>\<open>createContract(tx, patch)\<close> runs the predefined classes followed by the code of
  the transaction, asserts that the value is truthy, stores the contract under the
  address derived from \<^verbatim>\<open>tx.hash()\<close>, and returns the number 0.  Whatever throws on
  the way leaves the function before the patch is written.
\<close>

definition createContract ::
  "'v deps \<Rightarrow> 'a transaction \<Rightarrow> ('a, 'v) patchDB \<Rightarrow> ('a, 'v) patchDB \<times> (error + nat)" where
  "createContract deps tx patch =
     (let strCode = txCode tx
      in case vmRun deps (predefinedClassesCode deps @ strCode) of
           Inl e \<Rightarrow> (patch, Inl e)
         | Inr Falsy \<Rightarrow> (patch, Inl AssertionError)
         | Inr (Object retVal) \<Rightarrow>
             (let objData = ownProps retVal
              in case exportResult retVal of
                   Inl e \<Rightarrow> (patch, Inl e)
                 | Inr names \<Rightarrow>
                     (case memberSources (memberSource retVal) names of
                        Inl e \<Rightarrow> (patch, Inl e)
                      | Inr codes \<Rightarrow>
                          (case reduceConcat codes of
                             Inl e \<Rightarrow> (patch, Inl e)
                           | Inr strCodeExportedFunctions \<Rightarrow>
                               (let contractAddr = getAddressString deps (txHash tx)
                                in (setContract patch contractAddr objData
                                      strCodeExportedFunctions, Inr 0))))))"

text \<open>
  \<^verbatim>\<open>runContract(strCodeToRun, contractCode, patch, funcToLoadNestedContracts)\<close> has an
  empty body: it returns \<^verbatim>\<open>undefined\<close> (\<open>None\<close>) and touches nothing.
\<close>

definition runContract ::
  "string \<Rightarrow> string \<Rightarrow> ('a, 'v) patchDB \<Rightarrow> 'f \<Rightarrow> ('a, 'v) patchDB \<times> receipt option" where
  "runContract strCodeToRun contractCode patch funcToLoadNestedContracts = (patch, None)"

section \<open>Notions used to state the properties\<close>

text \<open>
  These notions are written from the words of the specification, not from the code:
  they say what the code is compared with.

  The UTXO that a hash refers to (spec 4.3, step 2b): "first in the working patch, then
  in \<^verbatim>\<open>utxo_snapshot\<close>".  The patch's own UTXO of that hash wins over the snapshot's.
\<close>

definition utxoInView ::
  "('a, 'v) patchDB \<Rightarrow> (string \<rightharpoonup> 'a utxo) \<Rightarrow> string \<Rightarrow> 'a utxo option" where
  "utxoInView patch mapUtxos h =
     (case utxoMap patch h of Some u \<Rightarrow> Some u | None \<Rightarrow> mapUtxos h)"

text \<open>
  The coins that a reference \<open>(h, idx)\<close> finds: the live output at \<open>idx\<close> of the UTXO that
  \<open>h\<close> refers to.  With the empty snapshot, \<open>coinsAt patch Map.empty h idx\<close> is what the
  patch itself holds there.
\<close>

definition coinsAt ::
  "('a, 'v) patchDB \<Rightarrow> (string \<rightharpoonup> 'a utxo) \<Rightarrow> string \<Rightarrow> nat \<Rightarrow> 'a coins option" where
  "coinsAt patch mapUtxos h idx =
     (case utxoInView patch mapUtxos h of None \<Rightarrow> None | Some u \<Rightarrow> outputs u idx)"

text \<open>
  The spend-marks of a list of inputs: the patch after \<^verbatim>\<open>patch.spendCoins\<close> has been
  applied, for each input in turn, to the UTXO that the input's hash refers to, and
  nothing else has been done to it.  \<open>None\<close> when one of the spends is not possible.
\<close>

fun spendMarks ::
  "('a, 'v) patchDB \<Rightarrow> (string \<rightharpoonup> 'a utxo) \<Rightarrow> string \<Rightarrow> txInput list
     \<Rightarrow> ('a, 'v) patchDB option" where
  "spendMarks patch mapUtxos h [] = Some patch"
| "spendMarks patch mapUtxos h (input # rest) =
     (case utxoInView patch mapUtxos (toHex (inputTxHash input)) of
        None \<Rightarrow> None
      | Some u \<Rightarrow>
          (case spendCoins patch u (nTxOutput input) h of
             (patch', Inl e) \<Rightarrow> None
           | (patch', Inr _) \<Rightarrow> spendMarks patch' mapUtxos h rest))"

text \<open>
  The text that the specification gives a contract's code (spec 4.5): the sources of
  the methods "joined by \<^verbatim>\<open>CONTRACT_METHOD_SEPARATOR\<close>", as
  \<^verbatim>\<open>Array.prototype.join\<close> does.  The separator is a constant of \<^verbatim>\<open>Constants\<close>, which
  is not among the sources; it is a parameter here.
\<close>

fun specJoinedCode :: "string \<Rightarrow> string list \<Rightarrow> string" where
  "specJoinedCode sep [] = []"
| "specJoinedCode sep [funcCode] = funcCode"
| "specJoinedCode sep (funcCode # next # rest) =
     funcCode @ sep @ specJoinedCode sep (next # rest)"

section \<open>Concrete data\<close>

text \<open>
  The data of \<^verbatim>\<open>tests/app.spec.js\<close>, on which the model is evaluated: a UTXO with
  coins of 100000 for the address \<open>A\<close> at the positions 12, 0 and 80
  (\<^verbatim>\<open>createGenesis\<close>), a transaction that spends the three of them and pays 1000,
  and variants of it.  The Crypto facade is a stand-in: a signature carries the address
  of its signer in its first 20 bytes, the recovered key is the hexadecimal text of
  that address, and the address of a key are the bytes it spells.  The typeforce types
  are buffers of 20, 65 and 32 bytes.

  The VM is a stand-in that knows two programs, each preceded by the predefined class
  \<^verbatim>\<open>Base\<close>, whose \<^verbatim>\<open>export()\<close> lists the names of the methods of the instance's
  class.  The first is the contract of the test "should create contract" without the
  identifier \<^verbatim>\<open>contractAddr\<close>, which nothing binds in the empty sandbox of
  \<^verbatim>\<open>createContract\<close>: a class with a constructor that stores \<^verbatim>\<open>_data\<close> and with the
  methods \<^verbatim>\<open>getData\<close> and \<^verbatim>\<open>getAnother\<close>, followed by \<^verbatim>\<open>exports=new A(10);\<close>.  Its
  value is the instance: the own property \<^verbatim>\<open>_data\<close> with the value 10, the two
  methods exported, and the text of each method as its source.  The second program
  refers to a class that does not exist and throws a ReferenceError.
\<close>

datatype jsValue = JSNumber int | JSString string

definition addrA :: buffer where
  "addrA = replicate 20 0xaa"

definition addrB :: buffer where
  "addrB = replicate 20 0xbb"

definition sigBy :: "buffer \<Rightarrow> buffer" where
  "sigBy addr = addr @ replicate 45 0"

definition hashH :: buffer where
  "hashH = replicate 32 0x11"

definition exTxHash :: string where
  "exTxHash = toHex (replicate 32 0x22)"

definition exSources :: "string list" where
  "exSources = [''getData(){return this._data;}'', ''getAnother(){return this._data;}'']"

definition exObject :: "jsValue jsObject" where
  "exObject =
     \<lparr>ownProps = [(''_data'', JSNumber 10)],
      exportResult = Inr [''getData'', ''getAnother''],
      memberSource = [''getData'' \<mapsto> ''getData(){return this._data;}'',
                      ''getAnother'' \<mapsto> ''getAnother(){return this._data;}'']\<rparr>"

definition exBaseCode :: string where
  "exBaseCode =
     ''class Base{export(){return Object.getOwnPropertyNames(Object.getPrototypeOf(this)).slice(1);}}''"

definition exCode :: string where
  "exCode =
     ''class A extends Base{constructor(p){super();this._data=p;}getData(){return this._data;}getAnother(){return this._data;}};exports=new A(10);''"

definition exDeps :: "jsValue deps" where
  "exDeps =
     \<lparr>recoverPubKey = (\<lambda>msg sig. toHex (take 20 sig)),
      getAddressBuffer = fromHex,
      getAddressString = take 40,
      isAddress = (\<lambda>b. length b = 20),
      isSignature = (\<lambda>b. length b = 65),
      isHash256bit = (\<lambda>b. length b = 32),
      vmRun = (\<lambda>code. if code = exBaseCode @ exCode then Inr (Object exObject)
                       else if code = exBaseCode @ ''exports=new Missing();''
                         then Inl (SandboxError ''ReferenceError'')
                       else Inl (SandboxError ''a program that the stand-in does not know'')),
      predefinedClassesCode = exBaseCode\<rparr>"

definition coinsA :: "int coins" where
  "coinsA = \<lparr>amount = 100000, receiverAddr = addrA\<rparr>"

definition utxoH :: "int utxo" where
  "utxoH =
     \<lparr>utxoTxHash = toHex hashH, outputs = [12 \<mapsto> coinsA, 0 \<mapsto> coinsA, 80 \<mapsto> coinsA],
      spent = {}\<rparr>"

definition exMapUtxos :: "string \<rightharpoonup> int utxo" where
  "exMapUtxos = [toHex hashH \<mapsto> utxoH]"

definition exNoUtxos :: "string \<rightharpoonup> int utxo" where
  "exNoUtxos = Map.empty"

definition exNoPatch :: "(int, jsValue) patchDB option" where
  "exNoPatch = None"

definition exNewPatch :: "(int, jsValue) patchDB" where
  "exNewPatch = newPatchDB"

definition exTx :: "int transaction" where
  "exTx =
     \<lparr>txHash = exTxHash, txHashOfInput = (\<lambda>i. exTxHash),
      inputs = [\<lparr>inputTxHash = hashH, nTxOutput = 12\<rparr>, \<lparr>inputTxHash = hashH, nTxOutput = 0\<rparr>,
                \<lparr>inputTxHash = hashH, nTxOutput = 80\<rparr>],
      claimProofs = [sigBy addrA, sigBy addrA, sigBy addrA],
      outCoins = [\<lparr>amount = 1000, receiverAddr = addrA\<rparr>],
      txCode = exCode\<rparr>"

text \<open>
  One input, signed by \<open>A\<close>; the same, signed by \<open>B\<close>; two inputs, the first signed by
  \<open>A\<close> and the second by \<open>B\<close>.
\<close>

definition exSingleTx :: "int transaction" where
  "exSingleTx =
     exTx\<lparr>inputs := [\<lparr>inputTxHash = hashH, nTxOutput = 12\<rparr>], claimProofs := [sigBy addrA]\<rparr>"


definition exSecondBadTx :: "int transaction" where
  "exSecondBadTx =
     exTx\<lparr>inputs := [\<lparr>inputTxHash = hashH, nTxOutput = 12\<rparr>,
                      \<lparr>inputTxHash = hashH, nTxOutput = 0\<rparr>],
          claimProofs := [sigBy addrA, sigBy addrB]\<rparr>"

text \<open>A transaction without inputs that issues 100000 to \<open>A\<close>.\<close>

definition exIssueTx :: "int transaction" where
  "exIssueTx = exTx\<lparr>inputs := [], claimProofs := [], outCoins := [coinsA]\<rparr>"



definition exWrongIndexTx :: "int transaction" where
  "exWrongIndexTx =
     exTx\<lparr>inputs := [\<lparr>inputTxHash = hashH, nTxOutput = 17\<rparr>], claimProofs := [sigBy addrA]\<rparr>"

text \<open>
  Two inputs: the first refers to the UTXO above and is signed by \<open>B\<close>, the second
  refers to a hash \<open>G\<close> that no store knows.
\<close>

definition hashG :: buffer where
  "hashG = replicate 32 0x33"

definition exUnreachedTx :: "int transaction" where
  "exUnreachedTx =
     exTx\<lparr>inputs := [\<lparr>inputTxHash = hashH, nTxOutput = 12\<rparr>,
                      \<lparr>inputTxHash = hashG, nTxOutput = 0\<rparr>],
          claimProofs := [sigBy addrB, sigBy addrA]\<rparr>"

text \<open>
  Two patches of a block that hold a UTXO of their own under the hash of the snapshot's
  UTXO: in the first the position 12 holds coins of 7, in the second the position 12
  has been spent.
\<close>

definition coinsSeven :: "int coins" where
  "coinsSeven = \<lparr>amount = 7, receiverAddr = addrA\<rparr>"

definition exPatchSeven :: "(int, jsValue) patchDB" where
  "exPatchSeven =
     newPatchDB\<lparr>utxoMap :=
       [toHex hashH \<mapsto> \<lparr>utxoTxHash = toHex hashH, outputs = [12 \<mapsto> coinsSeven], spent = {}\<rparr>]\<rparr>"

definition exPatchSpent :: "(int, jsValue) patchDB" where
  "exPatchSpent =
     newPatchDB\<lparr>utxoMap :=
       [toHex hashH \<mapsto> \<lparr>utxoTxHash = toHex hashH, outputs = [0 \<mapsto> coinsA, 80 \<mapsto> coinsA],
                         spent = {12}\<rparr>]\<rparr>"

section \<open>Properties of utils.js\<close>

lemma intersect_loop_filter:
  "intersect_loop cache xs acc = acc @ filter (\<lambda>e. e \<in> cache) xs"
  by (induction xs arbitrary: acc) simp_all

lemma arrayIntersection_filter:
  "arrayIntersection a b = filter (\<lambda>e. e \<in> set a) b"
  by (simp add: arrayIntersection_def intersect_loop_filter)

lemma length_filter_full:
  "length (filter P xs) = length xs \<longleftrightarrow> set xs \<subseteq> {x. P x}"
proof (induction xs)
  case Nil
  show ?case by simp
next
  case (Cons x xs)
  have le: "length (filter P xs) \<le> length xs"
    by (rule length_filter_le)
  show ?case
  proof (cases "P x")
    case True
    with Cons show ?thesis by simp
  next
    case False
    from le have "length (filter P xs) \<noteq> Suc (length xs)"
      by linarith
    with False show ?thesis by simp
  qed
qed

text \<open>
  C10.  \<^verbatim>\<open>arrayEquals(a, b)\<close> is true exactly when the two arrays have the same length
  and every element of \<open>b\<close> occurs in \<open>a\<close>; how often an element occurs plays no part.
  So \<open>[x, x, y]\<close> and \<open>[x, y, y]\<close> are "equal", although for \<open>x \<noteq> y\<close> neither is a
  rearrangement of the other.
\<close>

theorem arrayEquals_membership:
  "(arrayEquals a b \<longleftrightarrow> length a = length b \<and> set b \<subseteq> set a) \<and>
   arrayEquals [x, x, y] [x, y, y] \<and>
   (x \<noteq> y \<longrightarrow> mset [x, x, y] \<noteq> mset [x, y, y])"
proof (intro conjI impI)
  have "length (filter (\<lambda>e. e \<in> set a) b) = length b \<longleftrightarrow> set b \<subseteq> set a"
    using length_filter_full [of "\<lambda>e. e \<in> set a" b] by auto
  then show "arrayEquals a b \<longleftrightarrow> length a = length b \<and> set b \<subseteq> set a"
    by (auto simp: arrayEquals_def arrayIntersection_filter)
next
  show "arrayEquals [x, x, y] [x, y, y]"
    by (simp add: arrayEquals_def arrayIntersection_filter)
next
  assume "x \<noteq> y"
  then have "count (mset [x, x, y]) x \<noteq> count (mset [x, y, y]) x"
    by simp
  then show "mset [x, x, y] \<noteq> mset [x, y, y]"
    by metis
qed

theorem arrayEquals_membership_witness:
  "(arrayEquals [1::nat, 1, 2] [1, 2, 2] \<longleftrightarrow>
      length [1::nat, 1, 2] = length [1::nat, 2, 2] \<and> set [1::nat, 2, 2] \<subseteq> set [1, 1, 2]) \<and>
   arrayEquals [1::nat, 1, 2] [1, 2, 2] \<and>
   (1::nat) \<noteq> 2 \<and> mset [1::nat, 1, 2] \<noteq> mset [1, 2, 2]"
  using arrayEquals_membership [of "[1::nat, 1, 2]" "[1::nat, 2, 2]" "1::nat" "2::nat"] by simp

section \<open>Properties of witnessGroupDefinition.js\<close>

lemma parseInt_half: "parseInt (of_nat n / 2) = int (n div 2)"
  using floor_divide_of_nat_eq [of n 2, where ?'a = rat] by (simp add: parseInt_def)

lemma strict_majority: "int n < 2 * (int (n div 2) + 1)"
proof -
  have "n < 2 * (n div 2 + 1)"
    by presburger
  then have "int n < int (2 * (n div 2 + 1))"
    by (simp only: of_nat_less_iff)
  then show ?thesis
    by simp
qed

text \<open>
  C9.  When the stored quorum is missing or zero, \<^verbatim>\<open>getQuorum()\<close> returns
  \<open>\<lfloor>n / 2\<rfloor> + 1\<close>, where \<open>n\<close> is the number of the delegates' public keys if a list of
  delegates is stored, whatever the list of public keys is, and the number of public
  keys if no list of delegates is stored; twice that value exceeds \<open>n\<close>, so it is a
  strict majority of \<open>n\<close>.  A stored quorum other than zero is returned unchanged.
\<close>

theorem getQuorum_majority:
  "((quorum d = None \<or> quorum d = Some 0) \<and> delegatesPublicKeys d = Some delegates \<longrightarrow>
      getQuorum d = Inr (int (length delegates div 2) + 1) \<and>
      int (length delegates) < 2 * (int (length delegates div 2) + 1)) \<and>
   ((quorum d = None \<or> quorum d = Some 0) \<and> delegatesPublicKeys d = None \<and>
    publicKeys d = Some keys \<longrightarrow>
      getQuorum d = Inr (int (length keys div 2) + 1) \<and>
      int (length keys) < 2 * (int (length keys div 2) + 1)) \<and>
   (quorum d = Some q \<and> q \<noteq> 0 \<longrightarrow> getQuorum d = Inr q)"
proof (intro conjI impI)
  assume "(quorum d = None \<or> quorum d = Some 0) \<and> delegatesPublicKeys d = Some delegates"
  then show "getQuorum d = Inr (int (length delegates div 2) + 1)"
    by (auto simp: getQuorum_def orElse_def parseInt_half)
next
  assume "(quorum d = None \<or> quorum d = Some 0) \<and> delegatesPublicKeys d = None \<and>
    publicKeys d = Some keys"
  then show "getQuorum d = Inr (int (length keys div 2) + 1)"
    by (auto simp: getQuorum_def orElse_def parseInt_half)
next
  assume "quorum d = Some q \<and> q \<noteq> 0"
  then show "getQuorum d = Inr q"
    by (simp add: getQuorum_def)
qed (rule strict_majority)+

text \<open>
  Three public keys and one delegate, without a quorum and with the quorum zero: the
  delegates count, and the quorum is 1.  Three public keys and no list of delegates:
  the quorum is 2.  A stored quorum of 7 is returned.
\<close>

theorem getQuorum_majority_witness:
  "getQuorum \<lparr>publicKeys = Some [[1], [2], [3]], delegatesPublicKeys = Some [[1]],
      groupContractAddress = None, groupId = 0, quorum = None\<rparr> = Inr 1 \<and>
   getQuorum \<lparr>publicKeys = Some [[1], [2], [3]], delegatesPublicKeys = Some [[1]],
      groupContractAddress = None, groupId = 0, quorum = Some 0\<rparr> = Inr 1 \<and>
   getQuorum \<lparr>publicKeys = Some [[1], [2], [3]], delegatesPublicKeys = None,
      groupContractAddress = None, groupId = 0, quorum = Some 0\<rparr> = Inr 2 \<and>
   getQuorum \<lparr>publicKeys = Some [[1], [2], [3]], delegatesPublicKeys = Some [[1]],
      groupContractAddress = None, groupId = 0, quorum = Some 7\<rparr> = Inr 7"
  using
    getQuorum_majority [of "\<lparr>publicKeys = Some [[1], [2], [3]], delegatesPublicKeys = Some [[1]],
      groupContractAddress = None, groupId = 0, quorum = None\<rparr>" "[[1]]" "[]" 0]
    getQuorum_majority [of "\<lparr>publicKeys = Some [[1], [2], [3]], delegatesPublicKeys = Some [[1]],
      groupContractAddress = None, groupId = 0, quorum = Some 0\<rparr>" "[[1]]" "[]" 0]
    getQuorum_majority [of "\<lparr>publicKeys = Some [[1], [2], [3]], delegatesPublicKeys = None,
      groupContractAddress = None, groupId = 0, quorum = Some 0\<rparr>" "[]" "[[1], [2], [3]]" 0]
    getQuorum_majority [of "\<lparr>publicKeys = Some [[1], [2], [3]], delegatesPublicKeys = Some [[1]],
      groupContractAddress = None, groupId = 0, quorum = Some 7\<rparr>" "[]" "[]" 7]
  by simp

section \<open>Properties of \<^verbatim>\<open>processTxInputs\<close>\<close>

subsection \<open>One input\<close>

text \<open>The lookup of the code finds the UTXO that the hash refers to.\<close>

lemma lookupUtxo_view: "lookupUtxo p m h = utxoInView p m h"
  by (simp add: lookupUtxo_def orElse_def getUtxo_def utxoInView_def split: option.splits)

text \<open>An input that throws leaves the patch as it was.\<close>

lemma processInput_Inl:
  "processInput deps tx m p i inp = (q, Inl e) \<Longrightarrow> q = p"
  by (auto simp: processInput_def Let_def spendCoins_def
      split: option.splits sum.splits prod.splits)

text \<open>
  An input that is processed found the coins of its reference, and the new patch is the
  old one with that output spent.
\<close>

lemma processInput_Inr:
  "processInput deps tx m p i inp = (q, Inr a) \<Longrightarrow>
     \<exists>u c. utxoInView p m (toHex (inputTxHash inp)) = Some u \<and>
            outputs u (nTxOutput inp) = Some c \<and> a = amount c \<and>
            spendCoins p u (nTxOutput inp) (txHash tx) = (q, Inr ())"
  by (auto simp: processInput_def Let_def lookupUtxo_view coinsAtIndex_def
      split: option.splits sum.splits prod.splits)

subsection \<open>The loop\<close>

text \<open>
  When the loop throws, it threw at some input \<open>j\<close>: the inputs before \<open>j\<close> were
  processed, and the patch holds their spends.
\<close>

lemma inputsLoop_Inl:
  "inputsLoop deps tx m xs k p t = (q, Inl e) \<Longrightarrow>
     \<exists>j<length xs. \<exists>t'. inputsLoop deps tx m (take j xs) k p t = (q, Inr t') \<and>
        snd (processInput deps tx m q (k + j) (xs ! j)) = Inl e \<and>
        spendMarks p m (txHash tx) (take j xs) = Some q"
proof (induction xs arbitrary: k p t)
  case Nil
  then show ?case by simp
next
  case (Cons x xs)
  obtain p1 r where step: "processInput deps tx m p k x = (p1, r)"
    by (cases "processInput deps tx m p k x")
  show ?case
  proof (cases r)
    case (Inl e1)
    with step Cons.prems have "q = p1" "e1 = e" by simp_all
    moreover from step Inl have "p1 = p" by (simp add: processInput_Inl)
    ultimately have "inputsLoop deps tx m (take 0 (x # xs)) k p t = (q, Inr t) \<and>
        snd (processInput deps tx m q (k + 0) ((x # xs) ! 0)) = Inl e \<and>
        spendMarks p m (txHash tx) (take 0 (x # xs)) = Some q"
      using step Inl by simp
    then show ?thesis by (intro exI [of _ 0]) auto
  next
    case (Inr a)
    with step Cons.prems
    have rest: "inputsLoop deps tx m xs (Suc k) p1 (t + a) = (q, Inl e)" by simp
    from Cons.IH [OF rest] obtain j t' where j: "j < length xs"
      and a1: "inputsLoop deps tx m (take j xs) (Suc k) p1 (t + a) = (q, Inr t')"
      and a2: "snd (processInput deps tx m q (Suc k + j) (xs ! j)) = Inl e"
      and a3: "spendMarks p1 m (txHash tx) (take j xs) = Some q"
      by blast
    from step Inr have "processInput deps tx m p k x = (p1, Inr a)" by simp
    from processInput_Inr [OF this]
    obtain u where u: "utxoInView p m (toHex (inputTxHash x)) = Some u"
      "spendCoins p u (nTxOutput x) (txHash tx) = (p1, Inr ())"
      by blast
    have "inputsLoop deps tx m (take (Suc j) (x # xs)) k p t = (q, Inr t') \<and>
        snd (processInput deps tx m q (k + Suc j) ((x # xs) ! Suc j)) = Inl e \<and>
        spendMarks p m (txHash tx) (take (Suc j) (x # xs)) = Some q"
      using step Inr a1 a2 a3 u by simp
    with j show ?thesis by (intro exI [of _ "Suc j"]) auto
  qed
qed

text \<open>Conversely, the loop throws what the first input that throws does.\<close>

lemma inputsLoop_fail_at:
  "j < length xs \<Longrightarrow> inputsLoop deps tx m (take j xs) k p t = (q, Inr t') \<Longrightarrow>
   snd (processInput deps tx m q (k + j) (xs ! j)) = Inl e \<Longrightarrow>
   inputsLoop deps tx m xs k p t = (q, Inl e)"
proof (induction xs arbitrary: j k p t)
  case Nil
  then show ?case by simp
next
  case (Cons x xs)
  show ?case
  proof (cases j)
    case 0
    with Cons.prems have "q = p" "snd (processInput deps tx m p k x) = Inl e" by simp_all
    then show ?thesis
      by (cases "processInput deps tx m p k x") (auto dest: processInput_Inl)
  next
    case (Suc j')
    obtain p1 r where step: "processInput deps tx m p k x = (p1, r)"
      by (cases "processInput deps tx m p k x")
    show ?thesis
    proof (cases r)
      case (Inl e1)
      with step Cons.prems Suc show ?thesis by simp
    next
      case (Inr a)
      with step Cons.prems Suc
      have "inputsLoop deps tx m (take j' xs) (Suc k) p1 (t + a) = (q, Inr t')"
        "snd (processInput deps tx m q (Suc k + j') (xs ! j')) = Inl e" "j' < length xs"
        by simp_all
      from Cons.IH [OF this(3) this(1) this(2)] step Inr show ?thesis by simp
    qed
  qed
qed

text \<open>
  When the loop returns, every input found its coins in the patch as the inputs before
  it left it (and else in the snapshot), the total has grown by their amounts in turn,
  and the patch holds the spends of all of them.
\<close>

lemma inputsLoop_returns:
  fixes t :: "'a::{plus,zero}"
  assumes "inputsLoop deps tx m xs k p t = (q, Inr totalHas)"
  shows "\<exists>cs. length cs = length xs \<and>
           (\<forall>i<length xs. \<exists>p'.
              spendMarks p m (txHash tx) (take i xs) = Some p' \<and>
              coinsAt p' m (toHex (inputTxHash (xs ! i))) (nTxOutput (xs ! i)) = Some (cs ! i)) \<and>
           spendMarks p m (txHash tx) xs = Some q \<and>
           totalHas = foldl (+) t (map amount cs)"
  using assms
proof (induction xs arbitrary: k p t)
  case Nil
  then show ?case by simp
next
  case (Cons x xs)
  obtain p1 r where step: "processInput deps tx m p k x = (p1, r)"
    by (cases "processInput deps tx m p k x")
  show ?case
  proof (cases r)
    case (Inl e)
    with step Cons.prems show ?thesis by simp
  next
    case (Inr a)
    with step have "processInput deps tx m p k x = (p1, Inr a)" by simp
    from processInput_Inr [OF this]
    obtain u c where u: "utxoInView p m (toHex (inputTxHash x)) = Some u"
      and c: "outputs u (nTxOutput x) = Some c" and a: "a = amount c"
      and sp: "spendCoins p u (nTxOutput x) (txHash tx) = (p1, Inr ())"
      by blast
    from u c have here: "coinsAt p m (toHex (inputTxHash x)) (nTxOutput x) = Some c"
      by (simp add: coinsAt_def)
    from step Inr Cons.prems
    have rest: "inputsLoop deps tx m xs (Suc k) p1 (t + a) = (q, Inr totalHas)" by simp
    from Cons.IH [OF rest]
    obtain cs where len: "length cs = length xs"
      and each: "\<forall>i<length xs. \<exists>p'.
              spendMarks p1 m (txHash tx) (take i xs) = Some p' \<and>
              coinsAt p' m (toHex (inputTxHash (xs ! i))) (nTxOutput (xs ! i)) = Some (cs ! i)"
      and all: "spendMarks p1 m (txHash tx) xs = Some q"
      and sum: "totalHas = foldl (+) (t + a) (map amount cs)"
      by blast
    have cons: "spendMarks p m (txHash tx) (x # ys) = spendMarks p1 m (txHash tx) ys" for ys
      using u sp by simp
    have each': "\<exists>p'. spendMarks p m (txHash tx) (take i (x # xs)) = Some p' \<and>
        coinsAt p' m (toHex (inputTxHash ((x # xs) ! i))) (nTxOutput ((x # xs) ! i)) =
          Some ((c # cs) ! i)"
      if "i < length (x # xs)" for i
    proof (cases i)
      case 0
      with here show ?thesis by simp
    next
      case (Suc j)
      with that have "j < length xs" by simp
      with each obtain p' where "spendMarks p1 m (txHash tx) (take j xs) = Some p'"
        "coinsAt p' m (toHex (inputTxHash (xs ! j))) (nTxOutput (xs ! j)) = Some (cs ! j)"
        by blast
      with Suc cons show ?thesis by simp
    qed
    have "length (c # cs) = length (x # xs) \<and>
           (\<forall>i<length (x # xs). \<exists>p'.
              spendMarks p m (txHash tx) (take i (x # xs)) = Some p' \<and>
              coinsAt p' m (toHex (inputTxHash ((x # xs) ! i))) (nTxOutput ((x # xs) ! i)) =
                Some ((c # cs) ! i)) \<and>
           spendMarks p m (txHash tx) (x # xs) = Some q \<and>
           totalHas = foldl (+) t (map amount (c # cs))"
      using len each' all sum a cons by simp
    then show ?thesis by blast
  qed
qed

text \<open>
  Where the addition of amounts is that of a monoid (exact integers, say), the sum from
  left to right is the sum of the list.
\<close>

lemma foldl_plus_sum_list:
  "foldl (+) (a :: 'a::monoid_add) xs = a + sum_list xs"
  by (induction xs arbitrary: a) (simp_all add: add.assoc)

subsection \<open>The pair returned\<close>

text \<open>
  C1.  \<^verbatim>\<open>processTxInputs\<close> works on the patch of the block when the caller passes one,
  and on a new, empty patch otherwise.  When it returns, it returns that patch, marked
  with the spends of the inputs of the transaction and with nothing else, together
  with the total: there are coins \<open>cs\<close>, one for each input, such that the reference
  \<open>(txHash, nTxOutput)\<close> of input \<open>i\<close> finds the coins \<open>cs ! i\<close> in the working patch as
  the spends of the inputs before \<open>i\<close> left it, or else in the snapshot, and the total is
  the amounts of \<open>cs\<close> added up from zero in the order of the inputs.
\<close>

theorem processTxInputs_returns:
  fixes tx :: "('a::{plus,zero}) transaction"
  assumes ret: "processTxInputs deps tx mapUtxos patchForBlock = (patch, Inr totalHas)"
  shows "\<exists>cs. length cs = length (inputs tx) \<and>
           (\<forall>i<length (inputs tx). \<exists>p.
              spendMarks (case patchForBlock of Some blockPatch \<Rightarrow> blockPatch | None \<Rightarrow> newPatchDB)
                mapUtxos (txHash tx) (take i (inputs tx)) = Some p \<and>
              coinsAt p mapUtxos (toHex (inputTxHash (inputs tx ! i)))
                (nTxOutput (inputs tx ! i)) = Some (cs ! i)) \<and>
           spendMarks (case patchForBlock of Some blockPatch \<Rightarrow> blockPatch | None \<Rightarrow> newPatchDB)
             mapUtxos (txHash tx) (inputs tx) = Some patch \<and>
           totalHas = foldl (+) 0 (map amount cs)"
proof -
  from ret have loop:
    "inputsLoop deps tx mapUtxos (inputs tx) 0
       (case patchForBlock of Some blockPatch \<Rightarrow> blockPatch | None \<Rightarrow> newPatchDB) 0 =
       (patch, Inr totalHas)"
    by (simp add: processTxInputs_def workingPatch_def)
  from inputsLoop_returns [OF loop] show ?thesis .
qed

text \<open>
  The patch of the block holds coins of 7 at the position that the input refers to, and
  the snapshot coins of 100000: the total is 7.  Without a patch the three inputs of
  the test find the coins of the snapshot, and the total is 300000.
\<close>

theorem processTxInputs_returns_witness:
  "processTxInputs exDeps exSingleTx exMapUtxos (Some exPatchSeven) =
     (fst (processTxInputs exDeps exSingleTx exMapUtxos (Some exPatchSeven)), Inr 7) \<and>
   coinsAt exPatchSeven exMapUtxos (toHex hashH) 12 = Some coinsSeven \<and>
   map_option (\<lambda>u. outputs u 12) (exMapUtxos (toHex hashH)) = Some (Some coinsA) \<and>
   (\<exists>cs. length cs = length (inputs exSingleTx) \<and>
      (\<forall>i<length (inputs exSingleTx). \<exists>p.
         spendMarks exPatchSeven exMapUtxos (txHash exSingleTx) (take i (inputs exSingleTx)) =
           Some p \<and>
         coinsAt p exMapUtxos (toHex (inputTxHash (inputs exSingleTx ! i)))
           (nTxOutput (inputs exSingleTx ! i)) = Some (cs ! i)) \<and>
      spendMarks exPatchSeven exMapUtxos (txHash exSingleTx) (inputs exSingleTx) =
        Some (fst (processTxInputs exDeps exSingleTx exMapUtxos (Some exPatchSeven))) \<and>
      (7 :: int) = foldl (+) 0 (map amount cs)) \<and>
   processTxInputs exDeps exTx exMapUtxos exNoPatch =
     (fst (processTxInputs exDeps exTx exMapUtxos exNoPatch), Inr 300000) \<and>
   (\<exists>cs. length cs = length (inputs exTx) \<and>
      (\<forall>i<length (inputs exTx). \<exists>p.
         spendMarks exNewPatch exMapUtxos (txHash exTx) (take i (inputs exTx)) = Some p \<and>
         coinsAt p exMapUtxos (toHex (inputTxHash (inputs exTx ! i)))
           (nTxOutput (inputs exTx ! i)) = Some (cs ! i)) \<and>
      spendMarks exNewPatch exMapUtxos (txHash exTx) (inputs exTx) =
        Some (fst (processTxInputs exDeps exTx exMapUtxos exNoPatch)) \<and>
      (300000 :: int) = foldl (+) 0 (map amount cs))"
proof -
  have "snd (processTxInputs exDeps exSingleTx exMapUtxos (Some exPatchSeven)) = Inr 7"
    by code_simp
  then have ret: "processTxInputs exDeps exSingleTx exMapUtxos (Some exPatchSeven) =
     (fst (processTxInputs exDeps exSingleTx exMapUtxos (Some exPatchSeven)), Inr 7)"
    by (simp add: prod_eq_iff)
  have seven: "coinsAt exPatchSeven exMapUtxos (toHex hashH) 12 = Some coinsSeven"
    by code_simp
  have snap: "map_option (\<lambda>u. outputs u 12) (exMapUtxos (toHex hashH)) = Some (Some coinsA)"
    by code_simp
  have "snd (processTxInputs exDeps exTx exMapUtxos exNoPatch) = Inr 300000"
    by code_simp
  then have ret3: "processTxInputs exDeps exTx exMapUtxos exNoPatch =
     (fst (processTxInputs exDeps exTx exMapUtxos exNoPatch), Inr 300000)"
    by (simp add: prod_eq_iff)
  have three: "\<exists>cs. length cs = length (inputs exTx) \<and>
      (\<forall>i<length (inputs exTx). \<exists>p.
         spendMarks exNewPatch exMapUtxos (txHash exTx) (take i (inputs exTx)) = Some p \<and>
         coinsAt p exMapUtxos (toHex (inputTxHash (inputs exTx ! i)))
           (nTxOutput (inputs exTx ! i)) = Some (cs ! i)) \<and>
      spendMarks exNewPatch exMapUtxos (txHash exTx) (inputs exTx) =
        Some (fst (processTxInputs exDeps exTx exMapUtxos exNoPatch)) \<and>
      (300000 :: int) = foldl (+) 0 (map amount cs)"
  proof -
    have np: "(case exNoPatch of Some blockPatch \<Rightarrow> blockPatch | None \<Rightarrow> newPatchDB) =
        exNewPatch"
      by (simp add: exNoPatch_def exNewPatch_def)
    from processTxInputs_returns [OF ret3, unfolded np] show ?thesis .
  qed
  from processTxInputs_returns [OF ret] have one:
    "\<exists>cs. length cs = length (inputs exSingleTx) \<and>
      (\<forall>i<length (inputs exSingleTx). \<exists>p.
         spendMarks exPatchSeven exMapUtxos (txHash exSingleTx) (take i (inputs exSingleTx)) =
           Some p \<and>
         coinsAt p exMapUtxos (toHex (inputTxHash (inputs exSingleTx ! i)))
           (nTxOutput (inputs exSingleTx ! i)) = Some (cs ! i)) \<and>
      spendMarks exPatchSeven exMapUtxos (txHash exSingleTx) (inputs exSingleTx) =
        Some (fst (processTxInputs exDeps exSingleTx exMapUtxos (Some exPatchSeven))) \<and>
      (7 :: int) = foldl (+) 0 (map amount cs)"
    by simp
  from ret seven snap one ret3 three show ?thesis by (intro conjI)
qed

subsection \<open>The patch after an exception\<close>

text \<open>
  C4.  When \<^verbatim>\<open>processTxInputs\<close>, called with the patch of a block, throws, it threw at
  some input \<open>i\<close>: the inputs \<open>0..i-1\<close> were processed, input \<open>i\<close> threw and changed
  nothing, and the patch that the caller is left with is the one he passed, marked with
  the spends of the inputs \<open>0..i-1\<close> in their order and with nothing else.
\<close>

theorem processTxInputs_failure_frame:
  fixes tx :: "('a::{plus,zero}) transaction"
  assumes "processTxInputs deps tx mapUtxos (Some blockPatch) = (patch, Inl e)"
  shows "\<exists>i<length (inputs tx). \<exists>t.
           inputsLoop deps tx mapUtxos (take i (inputs tx)) 0 blockPatch 0 = (patch, Inr t) \<and>
           snd (processInput deps tx mapUtxos patch i (inputs tx ! i)) = Inl e \<and>
           fst (processInput deps tx mapUtxos patch i (inputs tx ! i)) = patch \<and>
           spendMarks blockPatch mapUtxos (txHash tx) (take i (inputs tx)) = Some patch"
proof -
  from assms have "inputsLoop deps tx mapUtxos (inputs tx) 0 blockPatch 0 = (patch, Inl e)"
    by (simp add: processTxInputs_def workingPatch_def)
  from inputsLoop_Inl [OF this]
  obtain j t' where j: "j < length (inputs tx)"
    and 1: "inputsLoop deps tx mapUtxos (take j (inputs tx)) 0 blockPatch 0 = (patch, Inr t')"
    and 2: "snd (processInput deps tx mapUtxos patch j (inputs tx ! j)) = Inl e"
    and 3: "spendMarks blockPatch mapUtxos (txHash tx) (take j (inputs tx)) = Some patch"
    by auto
  from 2 have "fst (processInput deps tx mapUtxos patch j (inputs tx ! j)) = patch"
    by (cases "processInput deps tx mapUtxos patch j (inputs tx ! j)")
       (auto dest: processInput_Inl)
  with j 1 2 3 show ?thesis by blast
qed

theorem processTxInputs_failure_frame_witness:
  "processTxInputs exDeps exSecondBadTx exMapUtxos (Some exNewPatch) =
     (fst (processTxInputs exDeps exSecondBadTx exMapUtxos (Some exNewPatch)),
      Inl (Error ''Claim failed!'')) \<and>
   (\<exists>i<length (inputs exSecondBadTx). \<exists>t.
      inputsLoop exDeps exSecondBadTx exMapUtxos (take i (inputs exSecondBadTx)) 0 exNewPatch 0 =
        (fst (processTxInputs exDeps exSecondBadTx exMapUtxos (Some exNewPatch)), Inr t) \<and>
      snd (processInput exDeps exSecondBadTx exMapUtxos
             (fst (processTxInputs exDeps exSecondBadTx exMapUtxos (Some exNewPatch))) i
             (inputs exSecondBadTx ! i)) = Inl (Error ''Claim failed!'') \<and>
      fst (processInput exDeps exSecondBadTx exMapUtxos
             (fst (processTxInputs exDeps exSecondBadTx exMapUtxos (Some exNewPatch))) i
             (inputs exSecondBadTx ! i)) =
        fst (processTxInputs exDeps exSecondBadTx exMapUtxos (Some exNewPatch)) \<and>
      spendMarks exNewPatch exMapUtxos (txHash exSecondBadTx) (take i (inputs exSecondBadTx)) =
        Some (fst (processTxInputs exDeps exSecondBadTx exMapUtxos (Some exNewPatch)))) \<and>
   coinsAt (fst (processTxInputs exDeps exSecondBadTx exMapUtxos (Some exNewPatch)))
     exMapUtxos (toHex hashH) 12 = None \<and>
   coinsAt (fst (processTxInputs exDeps exSecondBadTx exMapUtxos (Some exNewPatch)))
     exMapUtxos (toHex hashH) 0 = Some coinsA"
proof -
  have "snd (processTxInputs exDeps exSecondBadTx exMapUtxos (Some exNewPatch)) =
      Inl (Error ''Claim failed!'')"
    by code_simp
  then have ret: "processTxInputs exDeps exSecondBadTx exMapUtxos (Some exNewPatch) =
     (fst (processTxInputs exDeps exSecondBadTx exMapUtxos (Some exNewPatch)),
      Inl (Error ''Claim failed!''))"
    by (simp add: prod_eq_iff)
  have gone: "coinsAt (fst (processTxInputs exDeps exSecondBadTx exMapUtxos (Some exNewPatch)))
     exMapUtxos (toHex hashH) 12 = None"
    by code_simp
  have kept: "coinsAt (fst (processTxInputs exDeps exSecondBadTx exMapUtxos (Some exNewPatch)))
     exMapUtxos (toHex hashH) 0 = Some coinsA"
    by code_simp
  from processTxInputs_failure_frame [OF ret] ret gone kept show ?thesis by blast
qed

subsection \<open>The claim of an input\<close>






subsection \<open>The lookup of the referenced UTXO\<close>

text \<open>
  The loop throws what the input that it has come to throws.
\<close>

lemma processTxInputs_throws_at:
  fixes tx :: "('a::{plus,zero}) transaction"
  assumes "i < length (inputs tx)"
    and "inputsLoop deps tx mapUtxos (take i (inputs tx)) 0
           (case patchForBlock of Some blockPatch \<Rightarrow> blockPatch | None \<Rightarrow> newPatchDB) 0 =
           (p, Inr t)"
    and "snd (processInput deps tx mapUtxos p i (inputs tx ! i)) = Inl e"
  shows "processTxInputs deps tx mapUtxos patchForBlock = (p, Inl e)"
proof -
  from assms(3) have "snd (processInput deps tx mapUtxos p (0 + i) (inputs tx ! i)) = Inl e"
    by simp
  from inputsLoop_fail_at [OF assms(1,2) this] show ?thesis
    by (simp add: processTxInputs_def workingPatch_def)
qed

text \<open>
  The claim as it was stated fails twice.  The message of the Error is longer than
  \<^verbatim>\<open>UTXO not found for <tx_hash>\<close>: with a new patch and an empty snapshot, the hash
  of the only input is in neither, and what is thrown is not the Error with that
  message.  And an input that refers to an unknown hash decides nothing while an input
  before it throws: the second input of the other transaction refers to a hash that
  neither the patch nor the snapshot knows, and what is thrown is the \<^verbatim>\<open>Claim failed!\<close>
  of the first.
\<close>

theorem processTxInputs_utxo_not_found_counterexample:
  "utxoMap exNewPatch (toHex (inputTxHash (inputs exSingleTx ! 0))) = None \<and>
   exNoUtxos (toHex (inputTxHash (inputs exSingleTx ! 0))) = None \<and>
   snd (processTxInputs exDeps exSingleTx exNoUtxos exNoPatch) \<noteq>
     Inl (Error (''UTXO not found for '' @ toHex (inputTxHash (inputs exSingleTx ! 0)))) \<and>
   utxoMap (fst (processTxInputs exDeps exUnreachedTx exMapUtxos exNoPatch))
     (toHex (inputTxHash (inputs exUnreachedTx ! 1))) = None \<and>
   exMapUtxos (toHex (inputTxHash (inputs exUnreachedTx ! 1))) = None \<and>
   snd (processTxInputs exDeps exUnreachedTx exMapUtxos exNoPatch) =
     Inl (Error ''Claim failed!'')"
proof (intro conjI)
  show "utxoMap exNewPatch (toHex (inputTxHash (inputs exSingleTx ! 0))) = None"
    by code_simp
  show "exNoUtxos (toHex (inputTxHash (inputs exSingleTx ! 0))) = None"
    by code_simp
  show "snd (processTxInputs exDeps exSingleTx exNoUtxos exNoPatch) \<noteq>
     Inl (Error (''UTXO not found for '' @ toHex (inputTxHash (inputs exSingleTx ! 0))))"
    by code_simp
  show "utxoMap (fst (processTxInputs exDeps exUnreachedTx exMapUtxos exNoPatch))
     (toHex (inputTxHash (inputs exUnreachedTx ! 1))) = None"
    by code_simp
  show "exMapUtxos (toHex (inputTxHash (inputs exUnreachedTx ! 1))) = None"
    by code_simp
  show "snd (processTxInputs exDeps exUnreachedTx exMapUtxos exNoPatch) =
     Inl (Error ''Claim failed!'')"
    by code_simp
qed

text \<open>
  C3, amended.  Let \<^verbatim>\<open>processTxInputs\<close> have come to input \<open>i\<close>, the inputs before it
  processed and the working patch \<open>p\<close> as they left it.
  \<^item> If the hash of the input is neither in the working patch nor in the snapshot,
    \<^verbatim>\<open>processTxInputs\<close> throws the Error
    \<^verbatim>\<open>UTXO not found for <tx_hash> neither in patch nor in mapUtxos\<close>.
  \<^item> The patch is asked first: if the working patch has a UTXO for the hash, that UTXO
    decides, whatever the snapshot holds for the hash; when it has no coins at the
    position of the input, \<^verbatim>\<open>processTxInputs\<close> throws the error of that UTXO.
  \<^item> The snapshot is asked second: if the working patch has no UTXO for the hash and
    the snapshot has one, the snapshot's UTXO decides in the same way.

  In each case the caller's patch is left as the inputs before \<open>i\<close> left it.
\<close>

theorem processTxInputs_utxo_not_found:
  fixes tx :: "('a::{plus,zero}) transaction"
  assumes i: "i < length (inputs tx)"
    and reach: "inputsLoop deps tx mapUtxos (take i (inputs tx)) 0
                  (case patchForBlock of Some blockPatch \<Rightarrow> blockPatch | None \<Rightarrow> newPatchDB) 0 =
                  (p, Inr t)"
  shows "(utxoMap p (toHex (inputTxHash (inputs tx ! i))) = None \<and>
          mapUtxos (toHex (inputTxHash (inputs tx ! i))) = None \<longrightarrow>
            processTxInputs deps tx mapUtxos patchForBlock =
              (p, Inl (Error (''UTXO not found for '' @ toHex (inputTxHash (inputs tx ! i)) @
                              '' neither in patch nor in mapUtxos'')))) \<and>
         (utxoMap p (toHex (inputTxHash (inputs tx ! i))) = Some inPatch \<and>
          outputs inPatch (nTxOutput (inputs tx ! i)) = None \<longrightarrow>
            processTxInputs deps tx mapUtxos patchForBlock =
              (p, Inl (OutputAlreadySpent (nTxOutput (inputs tx ! i)) (utxoTxHash inPatch)))) \<and>
         (utxoMap p (toHex (inputTxHash (inputs tx ! i))) = None \<and>
          mapUtxos (toHex (inputTxHash (inputs tx ! i))) = Some inSnapshot \<and>
          outputs inSnapshot (nTxOutput (inputs tx ! i)) = None \<longrightarrow>
            processTxInputs deps tx mapUtxos patchForBlock =
              (p, Inl (OutputAlreadySpent (nTxOutput (inputs tx ! i)) (utxoTxHash inSnapshot))))"
proof (intro conjI impI)
  assume "utxoMap p (toHex (inputTxHash (inputs tx ! i))) = None \<and>
          mapUtxos (toHex (inputTxHash (inputs tx ! i))) = None"
  then have "snd (processInput deps tx mapUtxos p i (inputs tx ! i)) =
      Inl (Error (''UTXO not found for '' @ toHex (inputTxHash (inputs tx ! i)) @
                  '' neither in patch nor in mapUtxos''))"
    by (simp add: processInput_def lookupUtxo_def orElse_def getUtxo_def)
  from processTxInputs_throws_at [OF i reach this]
  show "processTxInputs deps tx mapUtxos patchForBlock =
      (p, Inl (Error (''UTXO not found for '' @ toHex (inputTxHash (inputs tx ! i)) @
                      '' neither in patch nor in mapUtxos'')))" .
next
  assume "utxoMap p (toHex (inputTxHash (inputs tx ! i))) = Some inPatch \<and>
          outputs inPatch (nTxOutput (inputs tx ! i)) = None"
  then have "snd (processInput deps tx mapUtxos p i (inputs tx ! i)) =
      Inl (OutputAlreadySpent (nTxOutput (inputs tx ! i)) (utxoTxHash inPatch))"
    by (simp add: processInput_def lookupUtxo_def orElse_def getUtxo_def coinsAtIndex_def)
  from processTxInputs_throws_at [OF i reach this]
  show "processTxInputs deps tx mapUtxos patchForBlock =
      (p, Inl (OutputAlreadySpent (nTxOutput (inputs tx ! i)) (utxoTxHash inPatch)))" .
next
  assume "utxoMap p (toHex (inputTxHash (inputs tx ! i))) = None \<and>
          mapUtxos (toHex (inputTxHash (inputs tx ! i))) = Some inSnapshot \<and>
          outputs inSnapshot (nTxOutput (inputs tx ! i)) = None"
  then have "snd (processInput deps tx mapUtxos p i (inputs tx ! i)) =
      Inl (OutputAlreadySpent (nTxOutput (inputs tx ! i)) (utxoTxHash inSnapshot))"
    by (simp add: processInput_def lookupUtxo_def orElse_def getUtxo_def coinsAtIndex_def)
  from processTxInputs_throws_at [OF i reach this]
  show "processTxInputs deps tx mapUtxos patchForBlock =
      (p, Inl (OutputAlreadySpent (nTxOutput (inputs tx ! i)) (utxoTxHash inSnapshot)))" .
qed

text \<open>
  A hash that no store knows, with a new patch and an empty snapshot.  A hash that both
  stores know: the patch of the block holds a UTXO in which the position 12 has been
  spent, the snapshot still has coins there, and the input is refused with the error
  of the patch's UTXO.  A hash that only the snapshot knows, at the position 17, where
  its UTXO has no coins.
\<close>

theorem processTxInputs_utxo_not_found_witness:
  "processTxInputs exDeps exSingleTx exNoUtxos exNoPatch =
     (exNewPatch,
      Inl (Error ''UTXO not found for 1111111111111111111111111111111111111111111111111111111111111111 neither in patch nor in mapUtxos'')) \<and>
   map_option (\<lambda>u. outputs u 12) (utxoMap exPatchSpent (toHex hashH)) = Some None \<and>
   map_option (\<lambda>u. outputs u 12) (exMapUtxos (toHex hashH)) = Some (Some coinsA) \<and>
   processTxInputs exDeps exSingleTx exMapUtxos (Some exPatchSpent) =
     (exPatchSpent, Inl (OutputAlreadySpent 12 (toHex hashH))) \<and>
   utxoMap exNewPatch (toHex hashH) = None \<and>
   map_option (\<lambda>u. outputs u 17) (exMapUtxos (toHex hashH)) = Some None \<and>
   processTxInputs exDeps exWrongIndexTx exMapUtxos exNoPatch =
     (exNewPatch, Inl (OutputAlreadySpent 17 (toHex hashH)))"
proof -
  have hex: "toHex hashH = ''1111111111111111111111111111111111111111111111111111111111111111''"
    by code_simp
  have in1: "inputs exSingleTx = [\<lparr>inputTxHash = hashH, nTxOutput = 12\<rparr>]"
    and in3: "inputs exWrongIndexTx = [\<lparr>inputTxHash = hashH, nTxOutput = 17\<rparr>]"
    by (simp_all add: exSingleTx_def exWrongIndexTx_def exTx_def)
  have none: "(case exNoPatch of Some blockPatch \<Rightarrow> blockPatch | None \<Rightarrow> newPatchDB) = exNewPatch"
    by (simp add: exNoPatch_def exNewPatch_def)
  have new: "utxoMap exNewPatch h = None" for h
    by (simp add: exNewPatch_def newPatchDB_def)
  have spent: "utxoMap exPatchSpent (toHex hashH) =
      Some \<lparr>utxoTxHash = toHex hashH, outputs = [0 \<mapsto> coinsA, 80 \<mapsto> coinsA], spent = {12}\<rparr>"
    by (simp add: exPatchSpent_def)
  have snap: "exMapUtxos (toHex hashH) = Some utxoH"
    by (simp add: exMapUtxos_def)
  have r1: "inputsLoop exDeps exSingleTx exNoUtxos (take 0 (inputs exSingleTx)) 0
      (case exNoPatch of Some blockPatch \<Rightarrow> blockPatch | None \<Rightarrow> newPatchDB) 0 =
      (exNewPatch, Inr 0)"
    by (simp add: none)
  have r2: "inputsLoop exDeps exSingleTx exMapUtxos (take 0 (inputs exSingleTx)) 0
      (case Some exPatchSpent of Some blockPatch \<Rightarrow> blockPatch | None \<Rightarrow> newPatchDB) 0 =
      (exPatchSpent, Inr 0)"
    by simp
  have r3: "inputsLoop exDeps exWrongIndexTx exMapUtxos (take 0 (inputs exWrongIndexTx)) 0
      (case exNoPatch of Some blockPatch \<Rightarrow> blockPatch | None \<Rightarrow> newPatchDB) 0 =
      (exNewPatch, Inr 0)"
    by (simp add: none)
  have i1: "0 < length (inputs exSingleTx)" and i3: "0 < length (inputs exWrongIndexTx)"
    by (simp_all add: in1 in3)
  have c1: "processTxInputs exDeps exSingleTx exNoUtxos exNoPatch =
     (exNewPatch,
      Inl (Error ''UTXO not found for 1111111111111111111111111111111111111111111111111111111111111111 neither in patch nor in mapUtxos''))"
    using processTxInputs_utxo_not_found [OF i1 r1]
    by (simp add: in1 new exNoUtxos_def hex)
  have c2: "processTxInputs exDeps exSingleTx exMapUtxos (Some exPatchSpent) =
     (exPatchSpent, Inl (OutputAlreadySpent 12 (toHex hashH)))"
    using processTxInputs_utxo_not_found [OF i1 r2, where inPatch =
        "\<lparr>utxoTxHash = toHex hashH, outputs = [0 \<mapsto> coinsA, 80 \<mapsto> coinsA], spent = {12}\<rparr>"]
    by (simp add: in1 spent)
  have c3: "processTxInputs exDeps exWrongIndexTx exMapUtxos exNoPatch =
     (exNewPatch, Inl (OutputAlreadySpent 17 (toHex hashH)))"
    using processTxInputs_utxo_not_found [OF i3 r3, where inSnapshot = utxoH]
    by (simp add: in3 new snap utxoH_def)
  have s2: "map_option (\<lambda>u. outputs u 12) (utxoMap exPatchSpent (toHex hashH)) = Some None"
    by (simp add: spent)
  have s2': "map_option (\<lambda>u. outputs u 12) (exMapUtxos (toHex hashH)) = Some (Some coinsA)"
    by (simp add: snap utxoH_def)
  have s3: "map_option (\<lambda>u. outputs u 17) (exMapUtxos (toHex hashH)) = Some None"
    by (simp add: snap utxoH_def)
  from c1 s2 s2' c2 new [of "toHex hashH"] s3 c3 show ?thesis by (intro conjI)
qed

section \<open>Properties of \<^verbatim>\<open>processPayments\<close>\<close>

lemma coinsAt_empty_snapshot:
  "coinsAt p Map.empty h i = (case utxoMap p h of None \<Rightarrow> None | Some u \<Rightarrow> outputs u i)"
  by (simp add: coinsAt_def utxoInView_def split: option.splits)

lemma createCoins_fresh:
  assumes "coinsAt p Map.empty h k = None"
  shows "\<exists>q. createCoins p h k c = (q, Inr ()) \<and>
           (\<forall>i. coinsAt q Map.empty h i = (if i = k then Some c else coinsAt p Map.empty h i))"
  using assms
  by (auto simp: createCoins_def Let_def coinsAt_empty_snapshot split: option.splits)

text \<open>
  The loop from index \<open>k\<close> on, when none of the positions it will write is live: it
  returns, every coin is at its position, and the positions before \<open>k\<close> are as they
  were.
\<close>

lemma paymentsLoop_fresh:
  fixes t :: "'a::{plus,zero}"
  assumes "\<forall>j<length cs. coinsAt p Map.empty h (k + j) = None"
  shows "\<exists>q. paymentsLoop h cs k p t = (q, Inr (foldl (+) t (map amount cs))) \<and>
           (\<forall>j<length cs. coinsAt q Map.empty h (k + j) = Some (cs ! j)) \<and>
           (\<forall>i<k. coinsAt q Map.empty h i = coinsAt p Map.empty h i)"
  using assms
proof (induction cs arbitrary: k p t)
  case Nil
  then show ?case by simp
next
  case (Cons c cs)
  from Cons.prems have "coinsAt p Map.empty h k = None" by force
  from createCoins_fresh [OF this, of c]
  obtain p1 where p1: "createCoins p h k c = (p1, Inr ())"
    and at: "\<And>i. coinsAt p1 Map.empty h i = (if i = k then Some c else coinsAt p Map.empty h i)"
    by blast
  have "\<forall>j<length cs. coinsAt p1 Map.empty h (Suc k + j) = None"
  proof (intro allI impI)
    fix j assume "j < length cs"
    then have "Suc j < length (c # cs)" by simp
    with Cons.prems have "coinsAt p Map.empty h (k + Suc j) = None" by blast
    then show "coinsAt p1 Map.empty h (Suc k + j) = None" by (simp add: at)
  qed
  from Cons.IH [OF this, of "t + amount c"]
  obtain q where q: "paymentsLoop h cs (Suc k) p1 (t + amount c) =
        (q, Inr (foldl (+) (t + amount c) (map amount cs)))"
    and new: "\<forall>j<length cs. coinsAt q Map.empty h (Suc k + j) = Some (cs ! j)"
    and old: "\<forall>i<Suc k. coinsAt q Map.empty h i = coinsAt p1 Map.empty h i"
    by blast
  have 1: "paymentsLoop h (c # cs) k p t = (q, Inr (foldl (+) t (map amount (c # cs))))"
    using p1 q by simp
  have 2: "\<forall>j<length (c # cs). coinsAt q Map.empty h (k + j) = Some ((c # cs) ! j)"
  proof (intro allI impI)
    fix j assume j: "j < length (c # cs)"
    show "coinsAt q Map.empty h (k + j) = Some ((c # cs) ! j)"
    proof (cases j)
      case 0
      with old at show ?thesis by simp
    next
      case (Suc j')
      with j new show ?thesis by simp
    qed
  qed
  have 3: "\<forall>i<k. coinsAt q Map.empty h i = coinsAt p Map.empty h i"
    using old at by simp
  from 1 2 3 show ?case by blast
qed

text \<open>
  Paying the same transaction twice into a patch: the second time the position
  \<open>(tx.hash(), 0)\<close> is live already, \<^verbatim>\<open>createCoins\<close> throws, and \<^verbatim>\<open>processPayments\<close>
  returns no total.
\<close>

theorem processPayments_creates_counterexample:
  "snd (processPayments exIssueTx exNewPatch) = Inr 100000 \<and>
   coinsAt (fst (processPayments exIssueTx exNewPatch)) Map.empty (txHash exIssueTx) 0 =
     Some coinsA \<and>
   snd (processPayments exIssueTx (fst (processPayments exIssueTx exNewPatch))) =
     Inl (OutputExists (txHash exIssueTx) 0)"
proof (intro conjI)
  show "snd (processPayments exIssueTx exNewPatch) = Inr 100000"
    by code_simp
  show "coinsAt (fst (processPayments exIssueTx exNewPatch)) Map.empty (txHash exIssueTx) 0 =
     Some coinsA"
    by code_simp
  show "snd (processPayments exIssueTx (fst (processPayments exIssueTx exNewPatch))) =
     Inl (OutputExists (txHash exIssueTx) 0)"
    by code_simp
qed

text \<open>
  C5, amended.  On a patch in which no position \<open>(tx.hash(), i)\<close> of an output of the
  transaction is live yet, \<^verbatim>\<open>processPayments\<close> returns the amounts of the outputs, added
  up from zero in their order, and the new patch holds at every position
  \<open>(tx.hash(), i)\<close> the \<open>i\<close>-th output.  If some output has a positive amount, the patch
  has a UTXO under \<^verbatim>\<open>tx.hash()\<close> and it is not empty.  For a transaction without inputs
  \<^verbatim>\<open>processTxInputs\<close> returns the working patch (the patch of the block, or a new one)
  untouched and the total zero; the payments do not depend on it.
\<close>

theorem processPayments_creates:
  fixes tx :: "('a::{plus,zero,ord}) transaction"
  assumes fresh: "\<forall>i<length (outCoins tx). coinsAt patch Map.empty (txHash tx) i = None"
  shows "\<exists>patch'.
           processPayments tx patch = (patch', Inr (foldl (+) 0 (map amount (outCoins tx)))) \<and>
           (\<forall>i<length (outCoins tx).
              coinsAt patch' Map.empty (txHash tx) i = Some (outCoins tx ! i)) \<and>
           ((\<exists>c\<in>set (outCoins tx). 0 < amount c) \<longrightarrow>
              (\<exists>u. getUtxo patch' (txHash tx) = Some u \<and> \<not> isEmpty u)) \<and>
           (inputs tx = [] \<longrightarrow>
              processTxInputs deps tx mapUtxos patchForBlock =
                ((case patchForBlock of Some blockPatch \<Rightarrow> blockPatch | None \<Rightarrow> newPatchDB),
                 Inr 0))"
proof -
  from fresh
  have "\<forall>j<length (outCoins tx). coinsAt patch Map.empty (txHash tx) (0 + j) = None"
    by simp
  from paymentsLoop_fresh [OF this, of 0]
  obtain q where q: "paymentsLoop (txHash tx) (outCoins tx) 0 patch 0 =
        (q, Inr (foldl (+) 0 (map amount (outCoins tx))))"
    and new: "\<forall>j<length (outCoins tx).
        coinsAt q Map.empty (txHash tx) (0 + j) = Some (outCoins tx ! j)"
    by blast
  have nonempty: "\<exists>u. getUtxo q (txHash tx) = Some u \<and> \<not> isEmpty u"
    if "\<exists>c\<in>set (outCoins tx). 0 < amount c"
  proof -
    from that have "0 < length (outCoins tx)" by auto
    with new have "coinsAt q Map.empty (txHash tx) 0 = Some (outCoins tx ! 0)" by force
    then show ?thesis
      by (auto simp: coinsAt_empty_snapshot getUtxo_def isEmpty_def split: option.splits)
  qed
  have "inputs tx = [] \<longrightarrow>
      processTxInputs deps tx mapUtxos patchForBlock =
        ((case patchForBlock of Some blockPatch \<Rightarrow> blockPatch | None \<Rightarrow> newPatchDB), Inr 0)"
    by (simp add: processTxInputs_def workingPatch_def)
  with q new nonempty show ?thesis
    by (auto simp: processPayments_def)
qed

theorem processPayments_creates_witness:
  "length (outCoins exIssueTx) = 1 \<and>
   coinsAt exNewPatch Map.empty (txHash exIssueTx) 0 = None \<and>
   (\<exists>patch'. processPayments exIssueTx exNewPatch = (patch', Inr 100000) \<and>
      coinsAt patch' Map.empty (txHash exIssueTx) 0 = Some coinsA \<and>
      (\<exists>u. getUtxo patch' (txHash exIssueTx) = Some u \<and> \<not> isEmpty u)) \<and>
   processTxInputs exDeps exIssueTx exMapUtxos (Some exPatchSeven) = (exPatchSeven, Inr 0)"
proof -
  have len: "length (outCoins exIssueTx) = 1"
    by (simp add: exIssueTx_def)
  have none: "coinsAt exNewPatch Map.empty (txHash exIssueTx) 0 = None"
    by (simp add: coinsAt_def utxoInView_def exNewPatch_def newPatchDB_def)
  have fresh:
    "\<forall>i<length (outCoins exIssueTx). coinsAt exNewPatch Map.empty (txHash exIssueTx) i = None"
    using len none by simp
  have pos: "\<exists>c\<in>set (outCoins exIssueTx). 0 < amount c"
    by (simp add: exIssueTx_def coinsA_def)
  have noin: "inputs exIssueTx = []"
    by (simp add: exIssueTx_def)
  have out: "outCoins exIssueTx = [coinsA]" "amount coinsA = 100000"
    by (simp_all add: exIssueTx_def coinsA_def)
  from processPayments_creates [OF fresh, of exDeps exMapUtxos "Some exPatchSeven"]
  obtain patch' where
    1: "processPayments exIssueTx exNewPatch =
          (patch', Inr (foldl (+) 0 (map amount (outCoins exIssueTx))))"
    and 2: "\<forall>i<length (outCoins exIssueTx).
          coinsAt patch' Map.empty (txHash exIssueTx) i = Some (outCoins exIssueTx ! i)"
    and 3: "(\<exists>c\<in>set (outCoins exIssueTx). 0 < amount c) \<longrightarrow>
              (\<exists>u. getUtxo patch' (txHash exIssueTx) = Some u \<and> \<not> isEmpty u)"
    and 4: "inputs exIssueTx = [] \<longrightarrow>
              processTxInputs exDeps exIssueTx exMapUtxos (Some exPatchSeven) =
                ((case Some exPatchSeven of Some blockPatch \<Rightarrow> blockPatch | None \<Rightarrow> newPatchDB),
                 Inr 0)"
    by blast
  from 1 out have r1: "processPayments exIssueTx exNewPatch = (patch', Inr 100000)"
    by simp
  from 2 len out have r2: "coinsAt patch' Map.empty (txHash exIssueTx) 0 = Some coinsA"
    by simp
  from 3 pos have r3: "\<exists>u. getUtxo patch' (txHash exIssueTx) = Some u \<and> \<not> isEmpty u"
    by blast
  from 4 noin
  have r4: "processTxInputs exDeps exIssueTx exMapUtxos (Some exPatchSeven) =
      (exPatchSeven, Inr 0)"
    by simp
  from len none r1 r2 r3 r4 show ?thesis by blast
qed

section \<open>Properties of \<^verbatim>\<open>createContract\<close> and \<^verbatim>\<open>runContract\<close>\<close>

lemma reduceConcat_concat:
  "codes \<noteq> [] \<Longrightarrow> reduceConcat codes = Inr (concat codes)"
proof -
  have "foldl (@) acc xs = acc @ concat xs" for acc :: string and xs
    by (induction xs arbitrary: acc) simp_all
  then show "codes \<noteq> [] \<Longrightarrow> reduceConcat codes = Inr (concat codes)"
    by (cases codes) (simp_all add: reduceConcat_def)
qed

text \<open>
  A deployment that succeeds stores, under the address derived from \<^verbatim>\<open>tx.hash()\<close>, the
  own properties of the instance and the sources of the exported methods one after the
  other, with nothing between them; it returns 0 and writes no receipt.
\<close>

lemma createContract_stores:
  assumes "vmRun deps (predefinedClassesCode deps @ txCode tx) = Inr (Object retVal)"
    and "exportResult retVal = Inr names"
    and "memberSources (memberSource retVal) names = Inr codes"
    and "codes \<noteq> []"
  shows "createContract deps tx patch =
           (setContract patch (getAddressString deps (txHash tx)) (ownProps retVal)
              (concat codes), Inr 0)"
  using assms by (simp add: createContract_def Let_def reduceConcat_concat)

lemma createContract_receipts:
  "receiptMap (fst (createContract deps tx patch)) = receiptMap patch"
  by (simp add: createContract_def Let_def setContract_def
      split: sum.splits retval.splits)

text \<open>
  C6.  The deployment of the contract above, whose class declares the methods
  \<^verbatim>\<open>getData\<close> and \<^verbatim>\<open>getAnother\<close> and whose instance exports both: it succeeds, and the
  data stored are the own properties of the instance, but the code stored is the two
  sources one after the other.  That is the text joined by the separator only if the
  separator is empty.
\<close>

theorem createContract_concatenates:
  "snd (createContract exDeps exTx exNewPatch) = Inr 0 \<and>
   map_option storedCode
     (contractMap (fst (createContract exDeps exTx exNewPatch))
        (getAddressString exDeps (txHash exTx))) = Some (concat exSources) \<and>
   map_option storedData
     (contractMap (fst (createContract exDeps exTx exNewPatch))
        (getAddressString exDeps (txHash exTx))) = Some (ownProps exObject) \<and>
   (concat exSources = specJoinedCode sep exSources \<longleftrightarrow> sep = [])"
proof (intro conjI)
  show "snd (createContract exDeps exTx exNewPatch) = Inr 0"
    by code_simp
  show "map_option storedCode
     (contractMap (fst (createContract exDeps exTx exNewPatch))
        (getAddressString exDeps (txHash exTx))) = Some (concat exSources)"
    by code_simp
  show "map_option storedData
     (contractMap (fst (createContract exDeps exTx exNewPatch))
        (getAddressString exDeps (txHash exTx))) = Some (ownProps exObject)"
    by code_simp
  show "concat exSources = specJoinedCode sep exSources \<longleftrightarrow> sep = []"
    by (simp add: exSources_def)
qed

text \<open>
  C7.  The same deployment returns the number 0, not a receipt and a contract, and the
  patch holds no receipt afterwards; the contract is stored under the address derived
  from \<^verbatim>\<open>tx.hash()\<close>.  A program that the VM rejects makes \<^verbatim>\<open>createContract\<close> throw
  what the VM threw.
\<close>

theorem createContract_no_receipt:
  "createContract exDeps exTx exNewPatch =
     (setContract exNewPatch (getAddressString exDeps (txHash exTx)) (ownProps exObject)
        ''getData(){return this._data;}getAnother(){return this._data;}'', Inr 0) \<and>
   receiptMap (fst (createContract exDeps exTx exNewPatch)) = Map.empty \<and>
   createContract exDeps (exTx\<lparr>txCode := ''exports=new Missing();''\<rparr>) exNewPatch =
     (exNewPatch, Inl (SandboxError ''ReferenceError''))"
  by (simp add: createContract_def Let_def exDeps_def exTx_def exCode_def exBaseCode_def
      exObject_def reduceConcat_def setContract_def exNewPatch_def newPatchDB_def)

text \<open>
  C8.  \<^verbatim>\<open>runContract\<close> returns \<^verbatim>\<open>undefined\<close> whatever it is called with, for instance
  with the unknown method of the test "should throw (unknown method)": the patch and
  the contract are untouched, and there is no receipt, failed or not.
\<close>

theorem runContract_returns_undefined:
  "runContract ''subtract(10)'' ''add(a){this.value+=a;}'' patch funcToLoadNestedContracts =
     (patch, None)"
  by (simp add: runContract_def)

end
